theory Spec2Isabelle
  imports Main "HOL-Library.Log_Nat"
begin

section \<open>JavaScript values used by the storefront\<close>

subsection \<open>Strings\<close>

text \<open>
  A JavaScript string is a sequence of UTF-16 code units. The model uses \<^typ>\<open>string\<close>
  and reads a \<^typ>\<open>char\<close> as the code unit of the same number, so it covers the strings
  whose code units are below 256 (Basic Latin and Latin-1 Supplement).

  \<^verbatim>\<open>String.prototype.trim\<close> removes WhiteSpace and LineTerminator code points from both
  ends; those below 256 are TAB, LF, VT, FF, CR, SPACE and NO-BREAK SPACE.
\<close>

definition isWhiteSpace :: "char \<Rightarrow> bool" where
  "isWhiteSpace c = (of_char c \<in> {9, 10, 11, 12, 13, 32, 160 :: nat})"

definition trim :: "string \<Rightarrow> string" where
  "trim s = rev (dropWhile isWhiteSpace (rev (dropWhile isWhiteSpace s)))"





subsection \<open>Numbers\<close>

text \<open>
  A JavaScript Number is an IEEE 754 binary64 value. \<open>Fin x\<close> is the finite Number whose
  exact value is the rational \<open>x\<close> (the two zeros are not told apart: no operation below
  depends on the sign of a zero). Every arithmetic operation returns the exact result
  rounded to the nearest representable value, ties to the even significand.
\<close>

datatype number = Fin rat | PosInf | NegInf | NaN

definition ilog2 :: "rat \<Rightarrow> int" where
  \<comment> \<open>\<open>\<lfloor>log\<^sub>2 x\<rfloor>\<close> for \<open>0 < x\<close>, from the bit lengths of numerator and denominator.\<close>
  "ilog2 x = (let (p, q) = quotient_of x; d = bitlen p - bitlen q
              in if 2 powi d \<le> x then d else d - 1)"

definition roundHalfEven :: "rat \<Rightarrow> int" where
  "roundHalfEven x =
     (let n = \<lfloor>x\<rfloor>; r = x - of_int n
      in if r < 1 / 2 then n else if 1 / 2 < r then n + 1 else if even n then n else n + 1)"

definition round53 :: "rat \<Rightarrow> rat" where
  \<comment> \<open>Nearest value with a 53-bit significand and an exponent of at least \<open>-1074\<close>
      (normal and subnormal range), the exponent unbounded above.\<close>
  "round53 x =
     (if x = 0 then 0
      else let e = max (ilog2 \<bar>x\<bar> - 52) (- 1074)
           in of_int (roundHalfEven (x / 2 powi e)) * 2 powi e)"

definition toNumber :: "rat \<Rightarrow> number" where
  \<comment> \<open>The Number denoted by an exact value (a numeric literal, the exact result of an
      operation): rounded, and infinite when the rounded magnitude reaches \<open>2\<^sup>1\<^sup>0\<^sup>2\<^sup>4\<close>.\<close>
  "toNumber x =
     (let r = round53 x
      in if 1024 \<le> ilog2 \<bar>r\<bar> then (if 0 < r then PosInf else NegInf) else Fin r)"

fun signOf :: "number \<Rightarrow> int" where
  "signOf (Fin x) = (if 0 < x then 1 else if x < 0 then - 1 else 0)"
| "signOf PosInf = 1"
| "signOf NegInf = - 1"
| "signOf NaN = 0"

fun js_add :: "number \<Rightarrow> number \<Rightarrow> number" where
  "js_add (Fin a) (Fin b) = toNumber (a + b)"
| "js_add NaN b = NaN"
| "js_add a NaN = NaN"
| "js_add PosInf NegInf = NaN"
| "js_add NegInf PosInf = NaN"
| "js_add PosInf b = PosInf"
| "js_add NegInf b = NegInf"
| "js_add (Fin a) b = b"

fun js_mul :: "number \<Rightarrow> number \<Rightarrow> number" where
  "js_mul (Fin a) (Fin b) = toNumber (a * b)"
| "js_mul NaN b = NaN"
| "js_mul a NaN = NaN"
| "js_mul a b =
     (if signOf a * signOf b = 0 then NaN
      else if 0 < signOf a * signOf b then PosInf else NegInf)"

fun js_gt :: "number \<Rightarrow> number \<Rightarrow> bool" where
  "js_gt (Fin a) (Fin b) = (b < a)"
| "js_gt NaN b = False"
| "js_gt a NaN = False"
| "js_gt PosInf b = (b \<noteq> PosInf)"
| "js_gt a NegInf = (a \<noteq> NegInf)"
| "js_gt a b = False"

definition numberOfInt :: "int \<Rightarrow> number" where
  "numberOfInt n = toNumber (of_int n)"

text \<open>
  \<^verbatim>\<open>x.toFixed(2)\<close> prints the integer \<open>n\<close> for which \<open>n / 100\<close> is nearest to the exact
  value of \<open>x\<close> (the larger \<open>n\<close> on a tie, taken on the magnitude) with two digits after
  the point. The model returns that number of hundredths. A magnitude of \<open>10\<^sup>2\<^sup>1\<close> or more
  prints in exponential notation, and an infinite or NaN value prints its name: for these
  the model returns \<open>None\<close>.
\<close>

fun toFixed2 :: "number \<Rightarrow> int option" where
  "toFixed2 (Fin x) =
     (if 10 ^ 21 \<le> \<bar>x\<bar> then None
      else Some (if x < 0 then - \<lfloor>- x * 100 + 1 / 2\<rfloor> else \<lfloor>x * 100 + 1 / 2\<rfloor>))"
| "toFixed2 n = None"

section \<open>Data model\<close>

text \<open>
  The objects the pages receive from the API. A price is a Number; a quantity is a Number
  holding an integer, modelled as \<^typ>\<open>int\<close> and converted where it enters arithmetic.
\<close>

record cart_item =
  menu_item_id :: string
  name :: string
  price :: number
  quantity :: int
  image :: string

record cart =
  restaurant_id :: "string option"
  items :: "cart_item list"

record order =
  order_id :: nat
  order_restaurant_id :: "string option"
  restaurant_name :: "string option"
  order_items :: "cart_item list"
  delivery_address :: string
  total_amount :: number
  status :: string
  created_at :: nat

record menu_item =
  item_id :: string
  item_name :: string
  item_price :: number
  item_image :: string

record restaurant =
  rest_id :: string
  rest_name :: string
  description :: string
  cuisine_type :: string

section \<open>OrdersPage: status rendering\<close>

datatype icon = Clock | Package | CheckCircle

definition getStatusIcon :: "string \<Rightarrow> icon" where
  "getStatusIcon st =
     (if st = ''placed'' then Clock
      else if st = ''preparing'' then Package
      else if st = ''delivered'' then CheckCircle
      else Package)"

definition getStatusColor :: "string \<Rightarrow> string" where
  "getStatusColor st =
     (if st = ''placed'' then ''bg-blue-100 text-blue-700 border-blue-300''
      else if st = ''preparing'' then ''bg-yellow-100 text-yellow-700 border-yellow-300''
      else if st = ''delivered'' then ''bg-green-100 text-green-700 border-green-300''
      else ''bg-gray-100 text-gray-700 border-gray-300'')"

section \<open>HomePage: the restaurant filter\<close>





section \<open>CartPage: the order summary\<close>

text \<open>
  \<^verbatim>\<open>const total = cart.items.reduce((sum, item) => sum + (item.price * item.quantity), 0);\<close>
  \<^verbatim>\<open>const deliveryFee = total > 0 ? 3.99 : 0;\<close>
  \<^verbatim>\<open>const grandTotal = total + deliveryFee;\<close>
\<close>

definition cartTotal :: "cart \<Rightarrow> number" where
  "cartTotal c =
     foldl (\<lambda>sum item. js_add sum (js_mul (price item) (numberOfInt (quantity item))))
       (Fin 0) (items c)"

definition deliveryFee :: "cart \<Rightarrow> number" where
  "deliveryFee c = (if js_gt (cartTotal c) (Fin 0) then toNumber (399 / 100) else Fin 0)"

definition grandTotal :: "cart \<Rightarrow> number" where
  "grandTotal c = js_add (cartTotal c) (deliveryFee c)"

record totals =
  subtotal :: number
  delivery_fee :: number
  grand_total :: number

definition computeTotals :: "cart \<Rightarrow> totals" where
  "computeTotals c =
     \<lparr>subtotal = cartTotal c, delivery_fee = deliveryFee c, grand_total = grandTotal c\<rparr>"

text \<open>What the summary card prints: each amount through \<^verbatim>\<open>toFixed(2)\<close>.\<close>

definition orderSummary :: "cart \<Rightarrow> int option \<times> int option \<times> int option" where
  "orderSummary c =
     (toFixed2 (cartTotal c), toFixed2 (deliveryFee c), toFixed2 (grandTotal c))"

text \<open>
  The exact sum of price times quantity, in rational arithmetic, that the computed subtotal
  is compared with; \<open>None\<close> when a price is not a finite Number.
\<close>

fun exactValue :: "number \<Rightarrow> rat option" where
  "exactValue (Fin x) = Some x"
| "exactValue n = None"

fun exactSum :: "cart_item list \<Rightarrow> rat option" where
  "exactSum [] = Some 0"
| "exactSum (i # is) =
     (case (exactValue (price i), exactSum is) of
        (Some p, Some r) \<Rightarrow> Some (p * of_int (quantity i) + r)
      | _ \<Rightarrow> None)"

definition representable :: "rat \<Rightarrow> bool" where
  "representable x = (toNumber x = Fin x)"

text \<open>
  A run of the reduction in which no operation rounds: each quantity, each product and each
  running sum is a Number as it stands.
\<close>

fun roundingFree :: "rat \<Rightarrow> cart_item list \<Rightarrow> bool" where
  "roundingFree acc [] = True"
| "roundingFree acc (i # is) =
     (case price i of
        Fin p \<Rightarrow>
          representable (of_int (quantity i)) \<and>
          representable (p * of_int (quantity i)) \<and>
          representable (acc + p * of_int (quantity i)) \<and>
          roundingFree (acc + p * of_int (quantity i)) is
      | _ \<Rightarrow> False)"

section \<open>The cart and order service behind the API\<close>

text \<open>
  The pages call \<^verbatim>\<open>POST /cart/add\<close>, \<^verbatim>\<open>PUT /cart/update\<close>, \<^verbatim>\<open>DELETE /cart/remove/{id}\<close>,
  \<^verbatim>\<open>GET /cart\<close> and \<^verbatim>\<open>POST /orders\<close>. The handlers of these routes are not among the
  sources; the operations below follow the contracts of the specification (sections 4.1,
  4.2 and 7), for one authenticated user.
\<close>

datatype error =
    Unauthenticated
  | InvalidQuantityError
  | ItemNotFoundError
  | CrossRestaurantError
  | EmptyCartError
  | MissingAddressError
  | NotFoundError
  | UnavailableError

record server =
  srv_cart :: cart
  srv_orders :: "order list"
  srv_next_id :: nat
  srv_menu :: "menu_item list"
  srv_restaurants :: "restaurant list"

definition hasItem :: "string \<Rightarrow> cart \<Rightarrow> bool" where
  "hasItem m c = (m \<in> menu_item_id ` set (items c))"


definition emptyCart :: cart where
  "emptyCart = \<lparr>restaurant_id = None, items = []\<rparr>"

text \<open>
  Modelled from the spec: the route handler of \<^verbatim>\<open>DELETE /cart/remove/{id}\<close> is missing.
  "Deletes the item; if the cart becomes empty, restaurant id resets to null.
  Removing an absent item is a no-op, not an error."
\<close>

definition spec_remove :: "string \<Rightarrow> cart \<Rightarrow> error + cart" where
  "spec_remove m c =
     (if \<not> hasItem m c then Inr c
      else let rest = filter (\<lambda>i. menu_item_id i \<noteq> m) (items c)
           in Inr \<lparr>restaurant_id = (if rest = [] then None else restaurant_id c),
                   items = rest\<rparr>)"



text \<open>
  Modelled from the spec: the route handler of \<^verbatim>\<open>POST /orders\<close> is missing.
  "Preconditions: cart.items is non-empty, delivery_address is non-empty after trimming
  whitespace. Fails with EmptyCartError or MissingAddressError respectively, with no
  side effects. On success: snapshots all cart items and computed total into an Order
  with status placed and a freshly generated unique id and creation timestamp, clears
  the cart, returns the created order." The id generator is a counter; \<open>now\<close> is the
  time of the call.
\<close>

definition spec_placeOrder :: "nat \<Rightarrow> string \<Rightarrow> server \<Rightarrow> error + (order \<times> server)" where
  "spec_placeOrder now addr s =
     (if items (srv_cart s) = [] then Inl EmptyCartError
      else if trim addr = [] then Inl MissingAddressError
      else let placed =
                 \<lparr>order_id = srv_next_id s,
                  order_restaurant_id = restaurant_id (srv_cart s),
                  restaurant_name =
                    map_option rest_name
                      (find (\<lambda>r. Some (rest_id r) = restaurant_id (srv_cart s))
                         (srv_restaurants s)),
                  order_items = items (srv_cart s),
                  delivery_address = addr,
                  total_amount = grand_total (computeTotals (srv_cart s)),
                  status = ''placed'',
                  created_at = now\<rparr>
           in Inr (placed,
                   s\<lparr>srv_cart := emptyCart,
                     srv_orders := srv_orders s @ [placed],
                     srv_next_id := Suc (srv_next_id s)\<rparr>))"

section \<open>CartPage: the handlers\<close>

text \<open>
  The state of the component (\<^verbatim>\<open>useState\<close>) and the route the router shows. A handler
  takes the service and the page and returns what it reports and the two afterwards:
  \<open>Inl e\<close> where the source shows an error toast, \<open>Inr\<close> where it does not. The transport
  is taken to deliver every request, and \<^verbatim>\<open>GET /cart\<close> to answer with the stored cart.
\<close>

record cart_page =
  page_cart :: cart
  deliveryAddress :: string
  loading :: bool
  placing :: bool
  location :: string

definition loadCart :: "server \<times> cart_page \<Rightarrow> server \<times> cart_page" where
  "loadCart w = (case w of (s, p) \<Rightarrow> (s, p\<lparr>page_cart := srv_cart s, loading := False\<rparr>))"

definition removeItem :: "string \<Rightarrow> server \<times> cart_page \<Rightarrow> (error + unit) \<times> server \<times> cart_page" where
  \<comment> \<open>\<open>Inr ()\<close>: toast "Item removed from cart"; \<open>Inl e\<close>: toast "Failed to remove item".\<close>
  "removeItem menuItemId w =
     (case w of (s, p) \<Rightarrow>
        (case spec_remove menuItemId (srv_cart s) of
           Inr c \<Rightarrow> (Inr (), loadCart (s\<lparr>srv_cart := c\<rparr>, p))
         | Inl e \<Rightarrow> (Inl e, s, p)))"


definition placeOrder :: "nat \<Rightarrow> server \<times> cart_page \<Rightarrow> (error + order) \<times> server \<times> cart_page" where
  \<comment> \<open>\<open>Inl MissingAddressError\<close>: toast "Please enter delivery address";
      \<open>Inl EmptyCartError\<close> before the request: toast "Your cart is empty";
      \<open>Inl e\<close> from the request: toast with the detail of the response;
      \<open>Inr\<close>: toast "Order placed successfully!" and the route changes to \<^verbatim>\<open>/orders\<close>.\<close>
  "placeOrder now w =
     (case w of (s, p) \<Rightarrow>
        if trim (deliveryAddress p) = [] then (Inl MissingAddressError, s, p)
        else if items (page_cart p) = [] then (Inl EmptyCartError, s, p)
        else (case spec_placeOrder now (deliveryAddress p) s of
                Inr (placed, s') \<Rightarrow>
                  (Inr placed, s', p\<lparr>placing := False, location := ''/orders''\<rparr>)
              | Inl e \<Rightarrow> (Inl e, s, p\<lparr>placing := False\<rparr>)))"

section \<open>RestaurantPage: the quantity selector and add to cart\<close>

text \<open>
  \<^verbatim>\<open>const [quantities, setQuantities] = useState({});\<close> The pending quantities are the own
  properties of a plain object, which inherits the properties of \<^verbatim>\<open>Object.prototype\<close>. A
  value read from it or computed by the selector is one of the following; the Numbers that
  occur are integers, modelled as \<^typ>\<open>int\<close>.
\<close>

datatype js_value =
    Undefined
  | Number int
  | NotANumber
  | Inherited
  | Text

text \<open>
  \<open>Inherited\<close> is a function or object found on the prototype, \<open>Text\<close> the string that
  \<^verbatim>\<open>+\<close> builds from such a value and a Number (as in
  \<^verbatim>\<open>"function Object() { [native code] }1"\<close>), which is not a numeral.
\<close>

definition objectPrototypeNames :: "string list" where
  "objectPrototypeNames =
     [''constructor'', ''__defineGetter__'', ''__defineSetter__'', ''hasOwnProperty'',
      ''__lookupGetter__'', ''__lookupSetter__'', ''isPrototypeOf'',
      ''propertyIsEnumerable'', ''toString'', ''valueOf'', ''__proto__'',
      ''toLocaleString'']"

definition getProperty :: "(string \<Rightarrow> js_value option) \<Rightarrow> string \<Rightarrow> js_value" where
  \<comment> \<open>\<^verbatim>\<open>quantities[itemId]\<close>: the own property, else the inherited one, else undefined.\<close>
  "getProperty own k =
     (case own k of
        Some v \<Rightarrow> v
      | None \<Rightarrow> if k \<in> set objectPrototypeNames then Inherited else Undefined)"

fun orOne :: "js_value \<Rightarrow> js_value" where
  \<comment> \<open>\<^verbatim>\<open>v || 1\<close>: undefined, 0 and NaN are falsy.\<close>
  "orOne Undefined = Number 1"
| "orOne (Number n) = (if n = 0 then Number 1 else Number n)"
| "orOne NotANumber = Number 1"
| "orOne Inherited = Inherited"
| "orOne Text = Text"

fun js_plus :: "js_value \<Rightarrow> int \<Rightarrow> js_value" where
  \<comment> \<open>\<^verbatim>\<open>current + delta\<close> for a Number \<open>delta\<close>: an object or a string on the left makes
      it a concatenation.\<close>
  "js_plus (Number n) d = Number (n + d)"
| "js_plus Undefined d = NotANumber"
| "js_plus NotANumber d = NotANumber"
| "js_plus Inherited d = Text"
| "js_plus Text d = Text"

fun mathMax1 :: "js_value \<Rightarrow> js_value" where
  \<comment> \<open>\<^verbatim>\<open>Math.max(1, v)\<close>: an argument that does not convert to a number gives NaN.\<close>
  "mathMax1 (Number n) = Number (max 1 n)"
| "mathMax1 v = NotANumber"

record restaurant_page =
  user :: bool
  shown_restaurant :: string
  quantities :: "string \<Rightarrow> js_value option"
  rp_location :: string

definition pendingQuantity :: "(string \<Rightarrow> js_value option) \<Rightarrow> string \<Rightarrow> js_value" where
  \<comment> \<open>\<^verbatim>\<open>quantities[itemId] || 1\<close>\<close>
  "pendingQuantity qs itemId = orOne (getProperty qs itemId)"

definition RestaurantPage_updateQuantity :: "string \<Rightarrow> int \<Rightarrow> restaurant_page \<Rightarrow> restaurant_page" where
  \<comment> \<open>\<^verbatim>\<open>updateQuantity(itemId, delta)\<close> of RestaurantPage.\<close>
  "RestaurantPage_updateQuantity itemId delta p =
     (let current = pendingQuantity (quantities p) itemId;
          newQuantity = mathMax1 (js_plus current delta)
      in p\<lparr>quantities := (quantities p)(itemId \<mapsto> newQuantity)\<rparr>)"

definition openPage :: "bool \<Rightarrow> string \<Rightarrow> restaurant_page" where
  \<comment> \<open>The page as it mounts: \<^verbatim>\<open>useState({})\<close>, an object with no own property.\<close>
  "openPage u rid =
     \<lparr>user = u, shown_restaurant = rid, quantities = (\<lambda>i. None),
      rp_location = ''/restaurant/'' @ rid\<rparr>"

text \<open>
  The body that \<open>handleAddToCart\<close> posts to \<^verbatim>\<open>/cart/add\<close>. Serialised as JSON, a quantity
  that is a function is left out of the body and one that is an object is sent as an
  empty object; neither is a number.
\<close>

record add_request =
  req_menu_item_id :: string
  req_quantity :: js_value
  req_restaurant_id :: string

definition addRequest :: "string \<Rightarrow> restaurant_page \<Rightarrow> add_request" where
  "addRequest menuItemId p =
     \<lparr>req_menu_item_id = menuItemId,
      req_quantity = pendingQuantity (quantities p) menuItemId,
      req_restaurant_id = shown_restaurant p\<rparr>"

text \<open>
  \<open>handleAddToCart\<close> up to its \<^verbatim>\<open>await\<close>: without a user it shows "Please login to add
  items to cart", moves to \<^verbatim>\<open>/\<close> and sends nothing; with one it sends the request. What
  runs when the response arrives is \<open>handleAddToCart_resume\<close>: on success it sets the
  quantities to those captured when the handler started, with the entry of the item set to
  1, so selector clicks made while the request was in flight are overwritten; on failure it
  shows the detail and leaves the page as it is.
\<close>

definition handleAddToCart :: "string \<Rightarrow> restaurant_page \<Rightarrow> (error + add_request) \<times> restaurant_page" where
  "handleAddToCart menuItemId p =
     (if \<not> user p then (Inl Unauthenticated, p\<lparr>rp_location := ''/''\<rparr>)
      else (Inr (addRequest menuItemId p), p))"

definition handleAddToCart_resume ::
  "string \<Rightarrow> (string \<Rightarrow> js_value option) \<Rightarrow> error + cart \<Rightarrow> restaurant_page \<Rightarrow> restaurant_page" where
  "handleAddToCart_resume menuItemId captured response p =
     (case response of
        Inr c \<Rightarrow> p\<lparr>quantities := captured(menuItemId \<mapsto> Number 1)\<rparr>
      | Inl e \<Rightarrow> p)"

section \<open>Properties of the string operations\<close>




section \<open>The restaurant filter\<close>




section \<open>Status rendering\<close>

text \<open>
  Claim C8. \<open>getStatusIcon\<close> and \<open>getStatusColor\<close> return a rendering for every status
  string: the clock, package and check icons with the blue, yellow and green classes for
  placed, preparing and delivered, and for every other string the default package icon
  with the neutral gray classes.
\<close>

theorem status_rendering_total:
  "(st = ''placed'' \<longrightarrow>
      getStatusIcon st = Clock \<and>
      getStatusColor st = ''bg-blue-100 text-blue-700 border-blue-300'') \<and>
   (st = ''preparing'' \<longrightarrow>
      getStatusIcon st = Package \<and>
      getStatusColor st = ''bg-yellow-100 text-yellow-700 border-yellow-300'') \<and>
   (st = ''delivered'' \<longrightarrow>
      getStatusIcon st = CheckCircle \<and>
      getStatusColor st = ''bg-green-100 text-green-700 border-green-300'') \<and>
   (st \<notin> {''placed'', ''preparing'', ''delivered''} \<longrightarrow>
      getStatusIcon st = Package \<and>
      getStatusColor st = ''bg-gray-100 text-gray-700 border-gray-300'')"
  by (simp add: getStatusIcon_def getStatusColor_def)

theorem status_rendering_total_witness:
  "''cancelled'' \<notin> {''placed'', ''preparing'', ''delivered''} \<and>
   getStatusIcon ''cancelled'' = Package \<and>
   getStatusColor ''cancelled'' = ''bg-gray-100 text-gray-700 border-gray-300''"
  using status_rendering_total [of "''cancelled''"] by simp

section \<open>The quantity selector\<close>

lemma getProperty_own: "getProperty (own(i \<mapsto> v)) i = v"
  by (simp add: getProperty_def)

text \<open>
  Where the entry of an item is a Number, NaN or unset, a selector step stores a Number of
  at least 1.
\<close>

lemma updateQuantity_clamps:
  assumes "getProperty (quantities p) i \<in> {Number n, Undefined, NotANumber}"
  shows "\<exists>m. getProperty (quantities (RestaurantPage_updateQuantity i d p)) i = Number m \<and> 1 \<le> m"
proof -
  have "\<exists>k. pendingQuantity (quantities p) i = Number k"
    using assms by (auto simp: pendingQuantity_def)
  then obtain k where "pendingQuantity (quantities p) i = Number k" by blast
  then have "getProperty (quantities (RestaurantPage_updateQuantity i d p)) i = Number (max 1 (k + d))"
    by (simp add: RestaurantPage_updateQuantity_def Let_def getProperty_own)
  then show ?thesis by simp
qed

text \<open>
  Claim C9 at an item whose id is the name of a property of \<^verbatim>\<open>Object.prototype\<close>. On the
  page as it mounts, the pending quantity of the item "constructor" is the inherited
  function and not a number, the add-to-cart request carries it as its quantity, and one
  increase click stores NaN. For the item "m1" the pending quantity and the quantity of the
  request are 1, and a decrease click stores 1.
\<close>

theorem inherited_key_quantity:
  "pendingQuantity (quantities (openPage True ''r1'')) ''constructor'' = Inherited \<and>
   req_quantity (addRequest ''constructor'' (openPage True ''r1'')) = Inherited \<and>
   fst (handleAddToCart ''constructor'' (openPage True ''r1'')) =
     Inr \<lparr>req_menu_item_id = ''constructor'', req_quantity = Inherited,
          req_restaurant_id = ''r1''\<rparr> \<and>
   getProperty
     (quantities (RestaurantPage_updateQuantity ''constructor'' 1 (openPage True ''r1'')))
     ''constructor'' = NotANumber \<and>
   pendingQuantity (quantities (openPage True ''r1'')) ''m1'' = Number 1 \<and>
   req_quantity (addRequest ''m1'' (openPage True ''r1'')) = Number 1 \<and>
   getProperty
     (quantities (RestaurantPage_updateQuantity ''m1'' (- 1) (openPage True ''r1'')))
     ''m1'' = Number 1"
  by (simp add: pendingQuantity_def getProperty_def objectPrototypeNames_def openPage_def
      addRequest_def handleAddToCart_def RestaurantPage_updateQuantity_def Let_def)

section \<open>Removing an item\<close>

lemma spec_remove_absent: "\<not> hasItem m c \<Longrightarrow> spec_remove m c = Inr c"
  by (simp add: spec_remove_def)

lemma spec_remove_total: "\<exists>c'. spec_remove m c = Inr c' \<and> \<not> hasItem m c'"
  by (auto simp: spec_remove_def Let_def hasItem_def)

lemma spec_remove_twice:
  assumes "spec_remove m c = Inr c'"
  shows "spec_remove m c' = Inr c'"
proof -
  from spec_remove_total[of m c] assms have "\<not> hasItem m c'" by auto
  then show ?thesis by (rule spec_remove_absent)
qed

lemma spec_remove_resets:
  assumes "hasItem m c" and "spec_remove m c = Inr c'" and "items c' = []"
  shows "restaurant_id c' = None"
  using assms by (auto simp: spec_remove_def Let_def split: if_splits)

lemma removeItem_result:
  "spec_remove m (srv_cart s) = Inr c' \<Longrightarrow>
   removeItem m (s, p) =
     (Inr (), s\<lparr>srv_cart := c'\<rparr>, p\<lparr>page_cart := c', loading := False\<rparr>)"
  by (simp add: removeItem_def loadCart_def)

text \<open>
  Claim C7. Removing an item always succeeds; removing it from the resulting cart returns
  that cart again; removing an absent item returns the cart as it is; and when removing a
  present item leaves no items, the restaurant id of the result is null. On the page,
  running \<open>removeItem\<close> a second time reports success and leaves service and page as
  the first run left them.
\<close>

theorem remove_idempotent:
  "(\<exists>c'. spec_remove x c = Inr c' \<and> spec_remove x c' = Inr c' \<and>
         (hasItem x c \<and> items c' = [] \<longrightarrow> restaurant_id c' = None)) \<and>
   (\<not> hasItem x c \<longrightarrow> spec_remove x c = Inr c) \<and>
   fst (removeItem x (s, p)) = Inr () \<and>
   removeItem x (snd (removeItem x (s, p))) = removeItem x (s, p)"
proof -
  obtain c' where r: "spec_remove x (srv_cart s) = Inr c'"
    using spec_remove_total by blast
  have r2: "spec_remove x c' = Inr c'" using r by (rule spec_remove_twice)
  have once: "removeItem x (s, p) =
      (Inr (), s\<lparr>srv_cart := c'\<rparr>, p\<lparr>page_cart := c', loading := False\<rparr>)"
    using r by (rule removeItem_result)
  have twice: "removeItem x (s\<lparr>srv_cart := c'\<rparr>, p\<lparr>page_cart := c', loading := False\<rparr>)
      = (Inr (), s\<lparr>srv_cart := c'\<rparr>, p\<lparr>page_cart := c', loading := False\<rparr>)"
    using removeItem_result[of x "s\<lparr>srv_cart := c'\<rparr>" c'
        "p\<lparr>page_cart := c', loading := False\<rparr>"] r2
    by simp
  obtain d where d: "spec_remove x c = Inr d" using spec_remove_total by blast
  have "spec_remove x d = Inr d" using d by (rule spec_remove_twice)
  moreover have "hasItem x c \<and> items d = [] \<longrightarrow> restaurant_id d = None"
    using d spec_remove_resets by blast
  ultimately have first: "\<exists>c'. spec_remove x c = Inr c' \<and> spec_remove x c' = Inr c' \<and>
         (hasItem x c \<and> items c' = [] \<longrightarrow> restaurant_id c' = None)"
    using d by blast
  show ?thesis
    using first once twice by (simp add: spec_remove_absent)
qed

theorem remove_idempotent_witness:
  "hasItem ''m1''
     \<lparr>restaurant_id = Some ''r1'',
      items = [\<lparr>menu_item_id = ''m1'', name = ''Burger'', price = Fin 12, quantity = 2,
                image = ''burger.png''\<rparr>]\<rparr> \<and>
   spec_remove ''m1''
     \<lparr>restaurant_id = Some ''r1'',
      items = [\<lparr>menu_item_id = ''m1'', name = ''Burger'', price = Fin 12, quantity = 2,
                image = ''burger.png''\<rparr>]\<rparr>
     = Inr \<lparr>restaurant_id = None, items = []\<rparr> \<and>
   \<not> hasItem ''m1'' \<lparr>restaurant_id = None, items = []\<rparr> \<and>
   spec_remove ''m1'' \<lparr>restaurant_id = None, items = []\<rparr>
     = Inr \<lparr>restaurant_id = None, items = []\<rparr>"
proof -
  let ?c = "\<lparr>restaurant_id = Some ''r1'',
      items = [\<lparr>menu_item_id = ''m1'', name = ''Burger'', price = Fin 12, quantity = 2,
                image = ''burger.png''\<rparr>]\<rparr>"
  let ?e = "\<lparr>restaurant_id = None, items = ([] :: cart_item list)\<rparr>"
  have h: "hasItem ''m1'' ?c" by (simp add: hasItem_def)
  have a: "\<not> hasItem ''m1'' ?e" by (simp add: hasItem_def)
  obtain c' where c': "spec_remove ''m1'' ?c = Inr c'" "spec_remove ''m1'' c' = Inr c'"
      "hasItem ''m1'' ?c \<and> items c' = [] \<longrightarrow> restaurant_id c' = None"
    using remove_idempotent[of "''m1''" ?c] by blast
  have "items c' = []" using c'(1) h by (auto simp: spec_remove_def Let_def)
  then have "restaurant_id c' = None" using c'(3) h by blast
  with \<open>items c' = []\<close> have "c' = ?e" by simp
  then show ?thesis using c' h a by simp
qed

section \<open>Updating a quantity\<close>










section \<open>Adding an item\<close>






section \<open>Placing an order\<close>

lemma trim_main_st: "trim ''123 Main St'' = ''123 Main St''"
  by code_simp

lemma trim_blank: "trim ''  '' = []"
  by code_simp

lemma placeOrder_Inl:
  assumes "fst (placeOrder now (s, p)) = Inl e"
  shows "fst (snd (placeOrder now (s, p))) = s \<and>
         page_cart (snd (snd (placeOrder now (s, p)))) = page_cart p \<and>
         deliveryAddress (snd (snd (placeOrder now (s, p)))) = deliveryAddress p \<and>
         location (snd (snd (placeOrder now (s, p)))) = location p"
  using assms by (auto simp: placeOrder_def split: if_splits sum.splits)

text \<open>
  Claim C2, as the code has it. \<open>placeOrder\<close> checks the address first: an address that
  is empty after trimming gives MissingAddressError, whatever the cart holds. An empty
  cart with an address that is not blank gives EmptyCartError; so does the empty cart with
  the address "123 Main St". In both cases no request is sent, and service and page are
  returned as they were. Whenever \<open>placeOrder\<close> reports an error, also one from the
  service, the service (cart and orders) and the cart on the page are unchanged.
\<close>

theorem placeOrder_precondition_failures:
  "(trim (deliveryAddress p) = [] \<longrightarrow>
      placeOrder now (s, p) = (Inl MissingAddressError, s, p)) \<and>
   (trim (deliveryAddress p) \<noteq> [] \<and> items (page_cart p) = [] \<longrightarrow>
      placeOrder now (s, p) = (Inl EmptyCartError, s, p)) \<and>
   (deliveryAddress p = ''123 Main St'' \<and> items (page_cart p) = [] \<longrightarrow>
      placeOrder now (s, p) = (Inl EmptyCartError, s, p)) \<and>
   (fst (placeOrder now (s, p)) = Inl e \<longrightarrow>
      fst (snd (placeOrder now (s, p))) = s \<and>
      page_cart (snd (snd (placeOrder now (s, p)))) = page_cart p)"
  using placeOrder_Inl[of now s p e]
  by (auto simp: placeOrder_def trim_main_st)

theorem placeOrder_precondition_failures_witness:
  "placeOrder 7
     (\<lparr>srv_cart = \<lparr>restaurant_id = None, items = []\<rparr>, srv_orders = [], srv_next_id = 0,
       srv_menu = [], srv_restaurants = []\<rparr>,
      \<lparr>page_cart = \<lparr>restaurant_id = None, items = []\<rparr>, deliveryAddress = ''123 Main St'',
       loading = False, placing = False, location = ''/cart''\<rparr>)
   = (Inl EmptyCartError,
      \<lparr>srv_cart = \<lparr>restaurant_id = None, items = []\<rparr>, srv_orders = [], srv_next_id = 0,
       srv_menu = [], srv_restaurants = []\<rparr>,
      \<lparr>page_cart = \<lparr>restaurant_id = None, items = []\<rparr>, deliveryAddress = ''123 Main St'',
       loading = False, placing = False, location = ''/cart''\<rparr>)"
  using placeOrder_precondition_failures
    [of "\<lparr>page_cart = \<lparr>restaurant_id = None, items = []\<rparr>, deliveryAddress = ''123 Main St'',
          loading = False, placing = False, location = ''/cart''\<rparr>" 7
        "\<lparr>srv_cart = \<lparr>restaurant_id = None, items = []\<rparr>, srv_orders = [], srv_next_id = 0,
          srv_menu = [], srv_restaurants = []\<rparr>"]
  by simp

text \<open>
  The claim as stated asks for EmptyCartError whenever the cart is empty. With an empty
  cart and an address of two spaces the handler reports MissingAddressError.
\<close>

theorem placeOrder_empty_cart_blank_address_counterexample:
  "items (page_cart
      \<lparr>page_cart = \<lparr>restaurant_id = None, items = []\<rparr>, deliveryAddress = ''  '',
       loading = False, placing = False, location = ''/cart''\<rparr>) = [] \<and>
   fst (placeOrder 7
     (\<lparr>srv_cart = \<lparr>restaurant_id = None, items = []\<rparr>, srv_orders = [], srv_next_id = 0,
       srv_menu = [], srv_restaurants = []\<rparr>,
      \<lparr>page_cart = \<lparr>restaurant_id = None, items = []\<rparr>, deliveryAddress = ''  '',
       loading = False, placing = False, location = ''/cart''\<rparr>))
   = Inl MissingAddressError \<and>
   Inl MissingAddressError \<noteq> (Inl EmptyCartError :: error + order)"
  by (simp add: placeOrder_def trim_blank)

section \<open>The order summary\<close>

lemma toNumber_399: "toNumber (399 / 100) = Fin (2246170314151035 / 562949953421312)"
  by code_simp

lemma toNumber_1599: "toNumber (1599 / 100) = Fin (9001569755206779 / 562949953421312)"
  by code_simp

lemma toNumber_12: "toNumber 12 = Fin 12"
  by code_simp

lemma toNumber_0: "toNumber 0 = Fin 0"
  by code_simp

lemma numberOfInt_1: "numberOfInt 1 = Fin 1"
  by code_simp

lemma add_12_fee:
  "js_add (Fin 12) (Fin (2246170314151035 / 562949953421312)) =
     Fin (9001569755206779 / 562949953421312)"
  by code_simp

lemma toFixed2_values:
  "toFixed2 (Fin 0) = Some 0"
  "toFixed2 (Fin 12) = Some 1200"
  "toFixed2 (Fin (2246170314151035 / 562949953421312)) = Some 399"
  "toFixed2 (Fin (9001569755206779 / 562949953421312)) = Some 1599"
  by code_simp+

lemma cartTotal_map:
  "cartTotal c =
     foldl js_add (Fin 0) (map (\<lambda>i. js_mul (price i) (numberOfInt (quantity i))) (items c))"
  by (simp add: cartTotal_def foldl_map)

lemma map_price_quantity:
  "map price xs = map price ys \<Longrightarrow> map quantity xs = map quantity ys \<Longrightarrow>
   map (\<lambda>i. js_mul (price i) (numberOfInt (quantity i))) xs =
   map (\<lambda>i. js_mul (price i) (numberOfInt (quantity i))) ys"
proof (induction xs arbitrary: ys)
  case Nil
  then show ?case by simp
next
  case (Cons x xs)
  then obtain y ys' where ys: "ys = y # ys'" by (cases ys) auto
  with Cons.prems have "price x = price y" "quantity x = quantity y"
    "map price xs = map price ys'" "map quantity xs = map quantity ys'" by simp_all
  with Cons.IH[of ys'] ys show ?case by simp
qed

lemma totals_depend_on_price_quantity:
  assumes "map price (items c) = map price (items c')"
    and "map quantity (items c) = map quantity (items c')"
  shows "computeTotals c = computeTotals c'"
proof -
  have "cartTotal c = cartTotal c'"
    using map_price_quantity[OF assms] by (simp add: cartTotal_map)
  then show ?thesis
    by (simp add: computeTotals_def deliveryFee_def grandTotal_def)
qed

lemma totals_one_item_12:
  assumes "price i = toNumber 12" and "quantity i = 1"
  shows "computeTotals \<lparr>restaurant_id = r, items = [i]\<rparr> =
           \<lparr>subtotal = toNumber 12, delivery_fee = toNumber (399 / 100),
            grand_total = toNumber (1599 / 100)\<rparr>"
    and "orderSummary \<lparr>restaurant_id = r, items = [i]\<rparr> = (Some 1200, Some 399, Some 1599)"
proof -
  have t: "cartTotal \<lparr>restaurant_id = r, items = [i]\<rparr> = Fin 12"
    using assms by (simp add: cartTotal_def toNumber_12 numberOfInt_1)
  have f: "deliveryFee \<lparr>restaurant_id = r, items = [i]\<rparr> = Fin (2246170314151035 / 562949953421312)"
    by (simp add: deliveryFee_def t toNumber_399)
  have g: "grandTotal \<lparr>restaurant_id = r, items = [i]\<rparr> = Fin (9001569755206779 / 562949953421312)"
    by (simp only: grandTotal_def t f add_12_fee)
  show "computeTotals \<lparr>restaurant_id = r, items = [i]\<rparr> =
           \<lparr>subtotal = toNumber 12, delivery_fee = toNumber (399 / 100),
            grand_total = toNumber (1599 / 100)\<rparr>"
    by (simp add: computeTotals_def t f g toNumber_12 toNumber_399 toNumber_1599)
  show "orderSummary \<lparr>restaurant_id = r, items = [i]\<rparr> = (Some 1200, Some 399, Some 1599)"
    unfolding orderSummary_def t f g by (simp only: toFixed2_values)
qed

lemma totals_empty:
  "computeTotals \<lparr>restaurant_id = r, items = []\<rparr> =
     \<lparr>subtotal = Fin 0, delivery_fee = Fin 0, grand_total = Fin 0\<rparr>"
  "orderSummary \<lparr>restaurant_id = r, items = []\<rparr> = (Some 0, Some 0, Some 0)"
proof -
  have t: "cartTotal \<lparr>restaurant_id = r, items = []\<rparr> = Fin 0"
    by (simp add: cartTotal_def)
  have f: "deliveryFee \<lparr>restaurant_id = r, items = []\<rparr> = Fin 0"
    by (simp add: deliveryFee_def t)
  have g: "grandTotal \<lparr>restaurant_id = r, items = []\<rparr> = Fin 0"
    by (simp add: grandTotal_def t f toNumber_0)
  show "computeTotals \<lparr>restaurant_id = r, items = []\<rparr> =
     \<lparr>subtotal = Fin 0, delivery_fee = Fin 0, grand_total = Fin 0\<rparr>"
    by (simp add: computeTotals_def t f g)
  show "orderSummary \<lparr>restaurant_id = r, items = []\<rparr> = (Some 0, Some 0, Some 0)"
    unfolding orderSummary_def t f g by (simp only: toFixed2_values)
qed


lemma fee_nonzero: "toNumber (399 / 100) \<noteq> Fin 0"
  by (simp add: toNumber_399)

lemma two_item_steps:
  "toNumber (25 / 2) = Fin (25 / 2)"
  "toNumber (1 / 4) = Fin (1 / 4)"
  "numberOfInt 2 = Fin 2"
  "numberOfInt 3 = Fin 3"
  "toNumber 25 = Fin 25"
  "toNumber (3 / 4) = Fin (3 / 4)"
  "toNumber (103 / 4) = Fin (103 / 4)"
  "js_add (Fin (103 / 4)) (Fin (2246170314151035 / 562949953421312)) =
     Fin (4185532903687455 / 140737488355328)"
  "toFixed2 (Fin (103 / 4)) = Some 2575"
  "toFixed2 (Fin (4185532903687455 / 140737488355328)) = Some 2974"
  by code_simp+

lemma totals_two_items:
  assumes "price i = toNumber (25 / 2)" and "quantity i = 2"
    and "price j = toNumber (1 / 4)" and "quantity j = 3"
  shows "computeTotals \<lparr>restaurant_id = r, items = [i, j]\<rparr> =
           \<lparr>subtotal = Fin (103 / 4), delivery_fee = toNumber (399 / 100),
            grand_total = Fin (4185532903687455 / 140737488355328)\<rparr>"
    and "orderSummary \<lparr>restaurant_id = r, items = [i, j]\<rparr> = (Some 2575, Some 399, Some 2974)"
proof -
  have t: "cartTotal \<lparr>restaurant_id = r, items = [i, j]\<rparr> = Fin (103 / 4)"
    using assms by (simp add: cartTotal_def two_item_steps)
  have f: "deliveryFee \<lparr>restaurant_id = r, items = [i, j]\<rparr> =
      Fin (2246170314151035 / 562949953421312)"
    by (simp add: deliveryFee_def t toNumber_399)
  have g: "grandTotal \<lparr>restaurant_id = r, items = [i, j]\<rparr> =
      Fin (4185532903687455 / 140737488355328)"
    by (simp only: grandTotal_def t f two_item_steps)
  show "computeTotals \<lparr>restaurant_id = r, items = [i, j]\<rparr> =
           \<lparr>subtotal = Fin (103 / 4), delivery_fee = toNumber (399 / 100),
            grand_total = Fin (4185532903687455 / 140737488355328)\<rparr>"
    by (simp add: computeTotals_def t f g toNumber_399)
  show "orderSummary \<lparr>restaurant_id = r, items = [i, j]\<rparr> = (Some 2575, Some 399, Some 2974)"
    unfolding orderSummary_def t f g by (simp only: two_item_steps toFixed2_values)
qed

lemma roundingFree_exact:
  "roundingFree acc xs \<Longrightarrow>
   \<exists>x. exactSum xs = Some x \<and>
       foldl (\<lambda>sum item. js_add sum (js_mul (price item) (numberOfInt (quantity item))))
         (Fin acc) xs = Fin (acc + x)"
proof (induction xs arbitrary: acc)
  case Nil
  then show ?case by simp
next
  case (Cons i xs)
  from Cons.prems obtain p where p: "price i = Fin p"
      and rq: "representable (of_int (quantity i))"
      and rp: "representable (p * of_int (quantity i))"
      and rs: "representable (acc + p * of_int (quantity i))"
      and rest: "roundingFree (acc + p * of_int (quantity i)) xs"
    by (auto split: number.splits)
  from Cons.IH[OF rest] obtain x where x: "exactSum xs = Some x"
    and f: "foldl (\<lambda>sum item. js_add sum (js_mul (price item) (numberOfInt (quantity item))))
         (Fin (acc + p * of_int (quantity i))) xs = Fin (acc + p * of_int (quantity i) + x)"
    by blast
  have step: "js_add (Fin acc) (js_mul (price i) (numberOfInt (quantity i)))
      = Fin (acc + p * of_int (quantity i))"
    using p rq rp rs by (simp add: representable_def numberOfInt_def)
  have "exactSum (i # xs) = Some (p * of_int (quantity i) + x)"
    using p x by simp
  moreover have "foldl (\<lambda>sum item. js_add sum (js_mul (price item) (numberOfInt (quantity item))))
         (Fin acc) (i # xs) = Fin (acc + (p * of_int (quantity i) + x))"
    using step f by (simp add: add.assoc)
  ultimately show ?case by blast
qed

lemma roundingFree_representable:
  "roundingFree acc xs \<Longrightarrow> representable acc \<Longrightarrow> exactSum xs = Some x \<Longrightarrow>
   representable (acc + x)"
proof (induction xs arbitrary: acc x)
  case Nil
  then show ?case by simp
next
  case (Cons i xs)
  from Cons.prems(1) obtain p where p: "price i = Fin p"
      and rs: "representable (acc + p * of_int (quantity i))"
      and rest: "roundingFree (acc + p * of_int (quantity i)) xs"
    by (auto split: number.splits)
  from Cons.prems(3) p obtain y where y: "exactSum xs = Some y"
      and x: "x = p * of_int (quantity i) + y"
    by (auto split: option.splits)
  from Cons.IH[OF rest rs y] show ?case
    by (simp add: x add.assoc)
qed

lemma representable_0: "representable 0"
  by (simp add: representable_def toNumber_0)

lemma roundingFree_totals:
  assumes "roundingFree 0 (items c)"
  shows "\<exists>x. exactSum (items c) = Some x \<and>
           subtotal (computeTotals c) = Fin x \<and>
           delivery_fee (computeTotals c) = (if 0 < x then toNumber (399 / 100) else Fin 0) \<and>
           grand_total (computeTotals c) =
             (if 0 < x then toNumber (x + 2246170314151035 / 562949953421312) else Fin x)"
proof -
  from roundingFree_exact[OF assms] obtain x where x: "exactSum (items c) = Some x"
    and t: "cartTotal c = Fin x"
    by (auto simp: cartTotal_def)
  have r: "representable x"
    using roundingFree_representable[OF assms representable_0 x] by simp
  have f: "deliveryFee c = (if 0 < x then toNumber (399 / 100) else Fin 0)"
    by (simp add: deliveryFee_def t)
  have g: "grandTotal c =
      (if 0 < x then toNumber (x + 2246170314151035 / 562949953421312) else Fin x)"
    using r by (simp add: grandTotal_def t f toNumber_399 representable_def)
  show ?thesis using x t f g by (simp add: computeTotals_def)
qed

text \<open>
  Claim C3, as the code has it. The subtotal is the sum, taken from 0 in the order of the
  items with the addition and multiplication of JavaScript Numbers, of the stored price
  times the stored quantity of each item; two carts with the same prices and quantities
  have the same totals, whatever else the items carry. The delivery fee is the Number
  3.99, which is not zero and prints as 3.99, when the subtotal is greater than 0, and 0
  otherwise. The grand total is the Number sum of subtotal and delivery fee. When no
  operation of the reduction rounds, the subtotal is the exact sum of price times quantity,
  the fee is charged exactly when that sum is positive, and the grand total is the exact
  sum of subtotal and fee rounded once. One item priced 12.00 at quantity 1 gives 12.00,
  3.99 and 15.99, as Numbers and as printed; items priced 12.50 at quantity 2 and 0.25 at
  quantity 3 give 25.75, 3.99 and 29.740000000000002, printed 25.75, 3.99 and 29.74; the
  empty cart gives delivery fee 0.00.
\<close>

theorem computeTotals_amounts:
  "subtotal (computeTotals c) =
     foldl js_add (Fin 0) (map (\<lambda>i. js_mul (price i) (numberOfInt (quantity i))) (items c)) \<and>
   delivery_fee (computeTotals c) =
     (if js_gt (subtotal (computeTotals c)) (Fin 0) then toNumber (399 / 100) else Fin 0) \<and>
   toNumber (399 / 100) \<noteq> Fin 0 \<and>
   toFixed2 (toNumber (399 / 100)) = Some 399 \<and>
   grand_total (computeTotals c) =
     js_add (subtotal (computeTotals c)) (delivery_fee (computeTotals c)) \<and>
   (roundingFree 0 (items c) \<longrightarrow>
      (\<exists>x. exactSum (items c) = Some x \<and>
           subtotal (computeTotals c) = Fin x \<and>
           delivery_fee (computeTotals c) = (if 0 < x then toNumber (399 / 100) else Fin 0) \<and>
           grand_total (computeTotals c) =
             (if 0 < x then toNumber (x + 2246170314151035 / 562949953421312) else Fin x))) \<and>
   (map price (items c) = map price (items c') \<and>
    map quantity (items c) = map quantity (items c') \<longrightarrow>
      computeTotals c = computeTotals c') \<and>
   (price i = toNumber 12 \<and> quantity i = 1 \<longrightarrow>
      computeTotals \<lparr>restaurant_id = r, items = [i]\<rparr> =
        \<lparr>subtotal = toNumber 12, delivery_fee = toNumber (399 / 100),
         grand_total = toNumber (1599 / 100)\<rparr> \<and>
      orderSummary \<lparr>restaurant_id = r, items = [i]\<rparr> = (Some 1200, Some 399, Some 1599)) \<and>
   (price i = toNumber (25 / 2) \<and> quantity i = 2 \<and>
    price j = toNumber (1 / 4) \<and> quantity j = 3 \<longrightarrow>
      computeTotals \<lparr>restaurant_id = r, items = [i, j]\<rparr> =
        \<lparr>subtotal = Fin (103 / 4), delivery_fee = toNumber (399 / 100),
         grand_total = Fin (4185532903687455 / 140737488355328)\<rparr> \<and>
      orderSummary \<lparr>restaurant_id = r, items = [i, j]\<rparr> = (Some 2575, Some 399, Some 2974)) \<and>
   computeTotals \<lparr>restaurant_id = r, items = []\<rparr> =
     \<lparr>subtotal = Fin 0, delivery_fee = Fin 0, grand_total = Fin 0\<rparr> \<and>
   orderSummary \<lparr>restaurant_id = r, items = []\<rparr> = (Some 0, Some 0, Some 0)"
proof (intro conjI impI)
  show "subtotal (computeTotals c) =
     foldl js_add (Fin 0) (map (\<lambda>i. js_mul (price i) (numberOfInt (quantity i))) (items c))"
    by (simp add: computeTotals_def cartTotal_map)
  show "delivery_fee (computeTotals c) =
     (if js_gt (subtotal (computeTotals c)) (Fin 0) then toNumber (399 / 100) else Fin 0)"
    by (simp add: computeTotals_def deliveryFee_def)
  show "toNumber (399 / 100) \<noteq> Fin 0" by (rule fee_nonzero)
  show "toFixed2 (toNumber (399 / 100)) = Some 399"
    by (simp only: toNumber_399 toFixed2_values)
  show "grand_total (computeTotals c) =
     js_add (subtotal (computeTotals c)) (delivery_fee (computeTotals c))"
    by (simp add: computeTotals_def grandTotal_def)
  show "\<exists>x. exactSum (items c) = Some x \<and>
           subtotal (computeTotals c) = Fin x \<and>
           delivery_fee (computeTotals c) = (if 0 < x then toNumber (399 / 100) else Fin 0) \<and>
           grand_total (computeTotals c) =
             (if 0 < x then toNumber (x + 2246170314151035 / 562949953421312) else Fin x)"
    if "roundingFree 0 (items c)"
    using that by (rule roundingFree_totals)
  show "computeTotals c = computeTotals c'"
    if "map price (items c) = map price (items c') \<and>
        map quantity (items c) = map quantity (items c')"
    using that totals_depend_on_price_quantity by blast
  show "computeTotals \<lparr>restaurant_id = r, items = [i]\<rparr> =
        \<lparr>subtotal = toNumber 12, delivery_fee = toNumber (399 / 100),
         grand_total = toNumber (1599 / 100)\<rparr>"
    if "price i = toNumber 12 \<and> quantity i = 1"
    using that totals_one_item_12(1) by blast
  show "orderSummary \<lparr>restaurant_id = r, items = [i]\<rparr> = (Some 1200, Some 399, Some 1599)"
    if "price i = toNumber 12 \<and> quantity i = 1"
    using that totals_one_item_12(2) by blast
  show "computeTotals \<lparr>restaurant_id = r, items = [i, j]\<rparr> =
        \<lparr>subtotal = Fin (103 / 4), delivery_fee = toNumber (399 / 100),
         grand_total = Fin (4185532903687455 / 140737488355328)\<rparr>"
    if "price i = toNumber (25 / 2) \<and> quantity i = 2 \<and>
        price j = toNumber (1 / 4) \<and> quantity j = 3"
    using that totals_two_items(1) by blast
  show "orderSummary \<lparr>restaurant_id = r, items = [i, j]\<rparr> = (Some 2575, Some 399, Some 2974)"
    if "price i = toNumber (25 / 2) \<and> quantity i = 2 \<and>
        price j = toNumber (1 / 4) \<and> quantity j = 3"
    using that totals_two_items(2) by blast
  show "computeTotals \<lparr>restaurant_id = r, items = []\<rparr> =
     \<lparr>subtotal = Fin 0, delivery_fee = Fin 0, grand_total = Fin 0\<rparr>"
    by (rule totals_empty)
  show "orderSummary \<lparr>restaurant_id = r, items = []\<rparr> = (Some 0, Some 0, Some 0)"
    by (rule totals_empty)
qed

theorem computeTotals_amounts_witness:
  "computeTotals
     \<lparr>restaurant_id = Some ''r1'',
      items = [\<lparr>menu_item_id = ''m1'', name = ''Burger'', price = toNumber (25 / 2),
                quantity = 2, image = ''burger.png''\<rparr>,
               \<lparr>menu_item_id = ''m2'', name = ''Dip'', price = toNumber (1 / 4),
                quantity = 3, image = ''dip.png''\<rparr>]\<rparr>
   = \<lparr>subtotal = Fin (103 / 4), delivery_fee = toNumber (399 / 100),
      grand_total = Fin (4185532903687455 / 140737488355328)\<rparr> \<and>
   orderSummary
     \<lparr>restaurant_id = Some ''r1'',
      items = [\<lparr>menu_item_id = ''m1'', name = ''Burger'', price = toNumber (25 / 2),
                quantity = 2, image = ''burger.png''\<rparr>,
               \<lparr>menu_item_id = ''m2'', name = ''Dip'', price = toNumber (1 / 4),
                quantity = 3, image = ''dip.png''\<rparr>]\<rparr>
   = (Some 2575, Some 399, Some 2974)"
proof -
  let ?i = "\<lparr>menu_item_id = ''m1'', name = ''Burger'', price = toNumber (25 / 2),
                quantity = 2, image = ''burger.png''\<rparr>"
  let ?j = "\<lparr>menu_item_id = ''m2'', name = ''Dip'', price = toNumber (1 / 4),
                quantity = 3, image = ''dip.png''\<rparr>"
  have h: "price ?i = toNumber (25 / 2) \<and> quantity ?i = 2 \<and>
           price ?j = toNumber (1 / 4) \<and> quantity ?j = 3"
    by simp
  show ?thesis
    using computeTotals_amounts[where i = ?i and j = ?j and r = "Some ''r1''"] h
    by blast
qed

text \<open>
  The claim as stated asks for a grand total equal to subtotal plus delivery fee. For
  items priced 12.50 at quantity 2 and 0.25 at quantity 3 the subtotal is 25.75, the fee
  is the Number 3.99 and the grand total is 29.740000000000002 (to 15 places), neither the
  exact sum of the two nor 29.74.
\<close>

theorem grand_total_not_exact_counterexample:
  "computeTotals
     \<lparr>restaurant_id = Some ''r1'',
      items = [\<lparr>menu_item_id = ''m1'', name = ''Burger'', price = toNumber (25 / 2),
                quantity = 2, image = ''burger.png''\<rparr>,
               \<lparr>menu_item_id = ''m2'', name = ''Dip'', price = toNumber (1 / 4),
                quantity = 3, image = ''dip.png''\<rparr>]\<rparr>
   = \<lparr>subtotal = Fin (103 / 4),
      delivery_fee = Fin (2246170314151035 / 562949953421312),
      grand_total = Fin (4185532903687455 / 140737488355328)\<rparr> \<and>
   (4185532903687455 / 140737488355328 :: rat) \<noteq>
     103 / 4 + 2246170314151035 / 562949953421312 \<and>
   (4185532903687455 / 140737488355328 :: rat) \<noteq> 103 / 4 + 399 / 100"
proof -
  let ?i = "\<lparr>menu_item_id = ''m1'', name = ''Burger'', price = toNumber (25 / 2),
                quantity = 2, image = ''burger.png''\<rparr>"
  let ?j = "\<lparr>menu_item_id = ''m2'', name = ''Dip'', price = toNumber (1 / 4),
                quantity = 3, image = ''dip.png''\<rparr>"
  have "computeTotals \<lparr>restaurant_id = Some ''r1'', items = [?i, ?j]\<rparr> =
      \<lparr>subtotal = Fin (103 / 4), delivery_fee = toNumber (399 / 100),
       grand_total = Fin (4185532903687455 / 140737488355328)\<rparr>"
    by (rule totals_two_items(1)) simp_all
  moreover have "(4185532903687455 / 140737488355328 :: rat) \<noteq>
     103 / 4 + 2246170314151035 / 562949953421312"
    by simp
  moreover have "(4185532903687455 / 140737488355328 :: rat) \<noteq> 103 / 4 + 399 / 100"
    by simp
  ultimately show ?thesis
    by (simp only: toNumber_399 simp_thms)
qed

section \<open>Exactness of the order summary\<close>

text \<open>
  Claim C4, as the code has it. The amounts are JavaScript Numbers: every product and every
  running sum is rounded to the nearest binary64 value. When no operation of the reduction
  rounds, the computed subtotal is the exact rational sum of price times quantity. The
  two-decimal rounding is applied to the three computed amounts when they are printed and
  does not enter the computation.
\<close>

theorem subtotal_exact_when_rounding_free:
  "(roundingFree 0 (items c) \<longrightarrow>
      (\<exists>x. exactSum (items c) = Some x \<and> subtotal (computeTotals c) = Fin x)) \<and>
   orderSummary c =
     (toFixed2 (subtotal (computeTotals c)), toFixed2 (delivery_fee (computeTotals c)),
      toFixed2 (grand_total (computeTotals c)))"
proof (intro conjI impI)
  assume "roundingFree 0 (items c)"
  from roundingFree_exact[OF this]
  show "\<exists>x. exactSum (items c) = Some x \<and> subtotal (computeTotals c) = Fin x"
    by (simp add: computeTotals_def cartTotal_def)
next
  show "orderSummary c =
     (toFixed2 (subtotal (computeTotals c)), toFixed2 (delivery_fee (computeTotals c)),
      toFixed2 (grand_total (computeTotals c)))"
    by (simp add: orderSummary_def computeTotals_def)
qed

lemma roundingFree_example:
  "roundingFree 0
     [\<lparr>menu_item_id = ''m1'', name = ''Burger'', price = Fin (25 / 2), quantity = 2,
        image = ''burger.png''\<rparr>,
      \<lparr>menu_item_id = ''m2'', name = ''Dip'', price = Fin (1 / 4), quantity = 3,
        image = ''dip.png''\<rparr>]"
  by code_simp

theorem subtotal_exact_when_rounding_free_witness:
  "roundingFree 0
     [\<lparr>menu_item_id = ''m1'', name = ''Burger'', price = Fin (25 / 2), quantity = 2,
        image = ''burger.png''\<rparr>,
      \<lparr>menu_item_id = ''m2'', name = ''Dip'', price = Fin (1 / 4), quantity = 3,
        image = ''dip.png''\<rparr>] \<and>
   subtotal (computeTotals
     \<lparr>restaurant_id = Some ''r1'',
      items = [\<lparr>menu_item_id = ''m1'', name = ''Burger'', price = Fin (25 / 2), quantity = 2,
                image = ''burger.png''\<rparr>,
               \<lparr>menu_item_id = ''m2'', name = ''Dip'', price = Fin (1 / 4), quantity = 3,
                image = ''dip.png''\<rparr>]\<rparr>) = Fin (103 / 4)"
proof -
  let ?xs = "[\<lparr>menu_item_id = ''m1'', name = ''Burger'', price = Fin (25 / 2), quantity = 2,
        image = ''burger.png''\<rparr>,
      \<lparr>menu_item_id = ''m2'', name = ''Dip'', price = Fin (1 / 4), quantity = 3,
        image = ''dip.png''\<rparr>]"
  have r: "roundingFree 0 (items \<lparr>restaurant_id = Some ''r1'', items = ?xs\<rparr>)"
    using roundingFree_example by simp
  have e: "exactSum ?xs = Some (103 / 4)" by simp
  obtain x where "exactSum (items \<lparr>restaurant_id = Some ''r1'', items = ?xs\<rparr>) = Some x"
      "subtotal (computeTotals \<lparr>restaurant_id = Some ''r1'', items = ?xs\<rparr>) = Fin x"
    using subtotal_exact_when_rounding_free[of "\<lparr>restaurant_id = Some ''r1'', items = ?xs\<rparr>"] r
    by blast
  then show ?thesis using e roundingFree_example by simp
qed

text \<open>
  The claim as stated asks for the exact sum for every cart. For two items priced 0.1 and
  0.2 at quantity 1 the computed subtotal is 0.3000000000000000444 (to 19 places), neither
  the exact sum of the two stored prices nor three tenths.
\<close>

lemma drift_total:
  "cartTotal
     \<lparr>restaurant_id = Some ''r1'',
      items = [\<lparr>menu_item_id = ''m1'', name = ''Mint'', price = toNumber (1 / 10), quantity = 1,
                image = ''mint.png''\<rparr>,
               \<lparr>menu_item_id = ''m2'', name = ''Gum'', price = toNumber (2 / 10), quantity = 1,
                image = ''gum.png''\<rparr>]\<rparr>
   = Fin (1351079888211149 / 4503599627370496)"
  by code_simp

lemma drift_exact:
  "exactSum
     [\<lparr>menu_item_id = ''m1'', name = ''Mint'', price = toNumber (1 / 10), quantity = 1,
        image = ''mint.png''\<rparr>,
      \<lparr>menu_item_id = ''m2'', name = ''Gum'', price = toNumber (2 / 10), quantity = 1,
        image = ''gum.png''\<rparr>]
   = Some (10808639105689191 / 36028797018963968)"
  by code_simp

theorem subtotal_not_exact_counterexample:
  "subtotal (computeTotals
     \<lparr>restaurant_id = Some ''r1'',
      items = [\<lparr>menu_item_id = ''m1'', name = ''Mint'', price = toNumber (1 / 10), quantity = 1,
                image = ''mint.png''\<rparr>,
               \<lparr>menu_item_id = ''m2'', name = ''Gum'', price = toNumber (2 / 10), quantity = 1,
                image = ''gum.png''\<rparr>]\<rparr>)
   = Fin (1351079888211149 / 4503599627370496) \<and>
   exactSum
     [\<lparr>menu_item_id = ''m1'', name = ''Mint'', price = toNumber (1 / 10), quantity = 1,
        image = ''mint.png''\<rparr>,
      \<lparr>menu_item_id = ''m2'', name = ''Gum'', price = toNumber (2 / 10), quantity = 1,
        image = ''gum.png''\<rparr>]
   = Some (10808639105689191 / 36028797018963968) \<and>
   (1351079888211149 / 4503599627370496 :: rat) \<noteq> 10808639105689191 / 36028797018963968 \<and>
   (1351079888211149 / 4503599627370496 :: rat) \<noteq> 1 / 10 + 2 / 10"
  using drift_total drift_exact by (simp add: computeTotals_def)

end
